theory Spec2Isabelle
  imports Main
begin

section \<open>The front-end's data: types, tokens and syntax trees\<close>

text \<open>
  The transpiler of \<^verbatim>\<open>src/Transpiler.ts\<close> walks a TypeScript syntax tree and asks the
  type checker for the type of some nodes. Of a type it only reads the flag word and the
  answers of the helper predicates of \<^verbatim>\<open>TSHelper\<close>, which are kept here as fields of the
  type, since \<^verbatim>\<open>TSHelper\<close> is not part of the sources at hand.
\<close>

datatype type_flag =
  TF_Any | TF_String | TF_Number | TF_Boolean | TF_Enum | TF_StringLiteral
  | TF_NumberLiteral | TF_Object | TF_Null | TF_Undefined

record tstype =
  flags :: "type_flag set"
  isArrayType :: bool
  isTupleType :: bool
  isStringType :: bool
  isCompileMembersOnlyEnum :: bool

text \<open>An identifier carries its \<^verbatim>\<open>text\<close> (here \<open>text_of\<close>) and its \<^verbatim>\<open>escapedText\<close>.\<close>

datatype ident = Ident (text_of: string) (escapedText: string)

datatype token =
  PlusEqualsToken | MinusEqualsToken | AmpersandAmpersandToken | BarBarToken
  | AmpersandToken | BarToken | PlusToken | MinusToken | AsteriskToken | SlashToken
  | PercentToken | LessThanToken | GreaterThanToken | LessThanEqualsToken
  | GreaterThanEqualsToken | EqualsToken | EqualsEqualsToken | EqualsEqualsEqualsToken
  | ExclamationEqualsToken | ExclamationEqualsEqualsToken | PlusPlusToken
  | MinusMinusToken | ExclamationToken | TildeToken

text \<open>
  Expressions. \<open>OtherExpression k\<close> stands for a node of any kind \<open>k\<close> that
  \<^verbatim>\<open>transpileExpression\<close> does not list. An arrow function is kept with a concise
  (expression) body; function expressions with a block body, classes and the numeric
  \<^verbatim>\<open>for\<close> (whose analysis lives in \<^verbatim>\<open>ForHelper\<close>) are outside the fragment modelled here.
\<close>

datatype expr =
    Identifier ident
  | StringLiteral string
  | NumericLiteral string
  | TrueKeyword
  | FalseKeyword
  | NullKeyword
  | ThisKeyword
  | SuperKeyword
  | BinaryExpression expr token expr
  | ConditionalExpression expr expr expr
  | CallExpression expr "expr list"
  | PropertyAccessExpression expr ident
  | ElementAccessExpression expr expr
  | TemplateExpression string "templateSpan list"
  | PostfixUnaryExpression expr token
  | PrefixUnaryExpression token expr
  | ArrayLiteralExpression "expr list"
  | ObjectLiteralExpression "propertyAssignment list"
  | ArrowFunction "string list" expr
  | NewExpression expr "expr list"
  | ComputedPropertyName expr
  | ParenthesizedExpression expr
  | TypeAssertionExpression expr
  | AsExpression expr
  | OtherExpression string
and templateSpan = TemplateSpan expr string
and propertyAssignment = PropertyAssignment expr expr

text \<open>
  The checker (\<^verbatim>\<open>checker.getTypeAtLocation\<close>) is an oracle from expression nodes to
  types; it gives one answer for an expression wherever that expression stands.
\<close>

type_synonym typeChecker = "expr \<Rightarrow> tstype"

section \<open>Errors and small string helpers\<close>

text \<open>
  A \<^verbatim>\<open>throw new TranspileError(msg, node)\<close> is the value \<open>Inl (TranspileError msg)\<close>.
  Reading a property of \<^verbatim>\<open>undefined\<close> makes the JavaScript runtime throw a
  \<^verbatim>\<open>TypeError\<close>, which is not a \<^verbatim>\<open>TranspileError\<close>.
\<close>

datatype error = TranspileError string | TypeError string

definition bindE :: "error + 'a \<Rightarrow> ('a \<Rightarrow> error + 'b) \<Rightarrow> error + 'b" where
  "bindE m f = (case m of Inl e \<Rightarrow> Inl e | Inr x \<Rightarrow> f x)"

fun sequenceE :: "(error + 'a) list \<Rightarrow> error + 'a list" where
  "sequenceE [] = Inr []"
| "sequenceE (m # ms) = bindE m (\<lambda>x. bindE (sequenceE ms) (\<lambda>xs. Inr (x # xs)))"

fun join :: "string \<Rightarrow> string list \<Rightarrow> string" where
  "join sep [] = []"
| "join sep [x] = x"
| "join sep (x # y # ys) = x @ sep @ join sep (y # ys)"

definition digit_char :: "nat \<Rightarrow> char" where
  "digit_char d = ''0123456789'' ! d"

fun string_of_nat :: "nat \<Rightarrow> string" where
  "string_of_nat n =
     (if n < 10 then [digit_char n] else string_of_nat (n div 10) @ [digit_char (n mod 10)])"

declare string_of_nat.simps [simp del]

text \<open>\<^verbatim>\<open>ts.tokenToString\<close>, the canonical text of an operator token.\<close>

fun tokenToString :: "token \<Rightarrow> string" where
  "tokenToString PlusEqualsToken = ''+=''"
| "tokenToString MinusEqualsToken = ''-=''"
| "tokenToString AmpersandAmpersandToken = ''&&''"
| "tokenToString BarBarToken = ''||''"
| "tokenToString AmpersandToken = ''&''"
| "tokenToString BarToken = ''|''"
| "tokenToString PlusToken = ''+''"
| "tokenToString MinusToken = ''-''"
| "tokenToString AsteriskToken = ''*''"
| "tokenToString SlashToken = ''/''"
| "tokenToString PercentToken = ''%''"
| "tokenToString LessThanToken = ''<''"
| "tokenToString GreaterThanToken = ''>''"
| "tokenToString LessThanEqualsToken = ''<=''"
| "tokenToString GreaterThanEqualsToken = ''>=''"
| "tokenToString EqualsToken = ''=''"
| "tokenToString EqualsEqualsToken = ''==''"
| "tokenToString EqualsEqualsEqualsToken = ''===''"
| "tokenToString ExclamationEqualsToken = ''!=''"
| "tokenToString ExclamationEqualsEqualsToken = ''!==''"
| "tokenToString PlusPlusToken = ''++''"
| "tokenToString MinusMinusToken = ''--''"
| "tokenToString ExclamationToken = ''!''"
| "tokenToString TildeToken = ''~''"

section \<open>Expression emitters\<close>

fun transpileOperator :: "token \<Rightarrow> string" where
  "transpileOperator EqualsEqualsEqualsToken = ''==''"
| "transpileOperator ExclamationEqualsToken = ''~=''"
| "transpileOperator ExclamationEqualsEqualsToken = ''~=''"
| "transpileOperator t = tokenToString t"

definition isStringLiteral :: "expr \<Rightarrow> bool" where
  "isStringLiteral e = (case e of StringLiteral _ \<Rightarrow> True | _ \<Rightarrow> False)"

lemma bindE_cong [fundef_cong]:
  "m = m' \<Longrightarrow> (\<And>x. m' = Inr x \<Longrightarrow> f x = g x) \<Longrightarrow> bindE m f = bindE m' g"
  by (auto simp: bindE_def split: sum.splits)

text \<open>
  The type guards \<^verbatim>\<open>ts.isPropertyAccessExpression\<close>, \<^verbatim>\<open>ts.isIdentifier\<close> and
  \<^verbatim>\<open>ts.isComputedPropertyName\<close>; the first two also hand out the parts of the node.
\<close>

definition asPropertyAccessExpression :: "expr \<Rightarrow> (expr \<times> ident) option" where
  "asPropertyAccessExpression e =
     (case e of PropertyAccessExpression r n \<Rightarrow> Some (r, n) | _ \<Rightarrow> None)"

definition asIdentifier :: "expr \<Rightarrow> ident option" where
  "asIdentifier e = (case e of Identifier i \<Rightarrow> Some i | _ \<Rightarrow> None)"

definition isComputedPropertyName :: "expr \<Rightarrow> bool" where
  "isComputedPropertyName e = (case e of ComputedPropertyName _ \<Rightarrow> True | _ \<Rightarrow> False)"


lemma asPropertyAccessExpression_Some [termination_simp]:
  "asPropertyAccessExpression c = Some p \<longleftrightarrow> c = PropertyAccessExpression (fst p) (snd p)"
  by (cases c; cases p) (auto simp: asPropertyAccessExpression_def)

text \<open>
  The emitters call each other as in the source; each takes the parts of the node that
  the source reads from its argument. The optional \<^verbatim>\<open>brackets\<close> argument is
  \<open>False\<close> where the source leaves it out. A \<^verbatim>\<open>switch\<close> on \<^verbatim>\<open>type.flags\<close>
  compares the whole flag word, while \<^verbatim>\<open>flags & String\<close> tests one bit.
\<close>

lemma size_list_member: "x \<in> set xs \<Longrightarrow> f x < size_list f xs"
  by (induction xs) auto

function
  transpileExpression :: "typeChecker \<Rightarrow> expr \<Rightarrow> bool \<Rightarrow> error + string" and
  transpileBinaryExpression :: "typeChecker \<Rightarrow> expr \<Rightarrow> token \<Rightarrow> expr \<Rightarrow> bool \<Rightarrow> error + string" and
  transpileTemplateExpression :: "typeChecker \<Rightarrow> string \<Rightarrow> templateSpan list \<Rightarrow> error + string" and
  transpileConditionalExpression :: "typeChecker \<Rightarrow> expr \<Rightarrow> expr \<Rightarrow> expr \<Rightarrow> error + string" and
  transpilePostfixUnaryExpression :: "typeChecker \<Rightarrow> expr \<Rightarrow> token \<Rightarrow> error + string" and
  transpilePrefixUnaryExpression :: "typeChecker \<Rightarrow> token \<Rightarrow> expr \<Rightarrow> error + string" and
  transpileNewExpression :: "typeChecker \<Rightarrow> expr \<Rightarrow> expr list \<Rightarrow> error + string" and
  transpileCallExpression :: "typeChecker \<Rightarrow> expr \<Rightarrow> expr list \<Rightarrow> error + string" and
  transpileStringCallExpression :: "typeChecker \<Rightarrow> expr \<Rightarrow> ident \<Rightarrow> expr list \<Rightarrow> error + string" and
  transpileArrayCallExpression :: "typeChecker \<Rightarrow> expr \<Rightarrow> ident \<Rightarrow> expr list \<Rightarrow> error + string" and
  transpileArguments :: "typeChecker \<Rightarrow> expr list \<Rightarrow> expr option \<Rightarrow> error + string" and
  transpilePropertyAccessExpression :: "typeChecker \<Rightarrow> expr \<Rightarrow> ident \<Rightarrow> error + string" and
  transpileStringProperty :: "typeChecker \<Rightarrow> expr \<Rightarrow> ident \<Rightarrow> error + string" and
  transpileArrayProperty :: "typeChecker \<Rightarrow> expr \<Rightarrow> ident \<Rightarrow> error + string" and
  transpileElementAccessExpression :: "typeChecker \<Rightarrow> expr \<Rightarrow> expr \<Rightarrow> error + string" and
  transpileArrayLiteral :: "typeChecker \<Rightarrow> expr list \<Rightarrow> error + string" and
  transpileObjectLiteral :: "typeChecker \<Rightarrow> propertyAssignment list \<Rightarrow> error + string" and
  transpileArrowFunction :: "typeChecker \<Rightarrow> string list \<Rightarrow> expr \<Rightarrow> error + string"
where
  "transpileExpression chk (BinaryExpression l op r) brackets =
     transpileBinaryExpression chk l op r brackets"
| "transpileExpression chk (ConditionalExpression c a b) brackets =
     transpileConditionalExpression chk c a b"
| "transpileExpression chk (CallExpression f args) brackets = transpileCallExpression chk f args"
| "transpileExpression chk (PropertyAccessExpression e n) brackets =
     transpilePropertyAccessExpression chk e n"
| "transpileExpression chk (ElementAccessExpression e i) brackets =
     transpileElementAccessExpression chk e i"
| "transpileExpression chk (Identifier i) brackets = Inr (text_of i)"
| "transpileExpression chk (StringLiteral t) brackets = Inr (''\"'' @ t @ ''\"'')"
| "transpileExpression chk (TemplateExpression h spans) brackets =
     transpileTemplateExpression chk h spans"
| "transpileExpression chk (NumericLiteral t) brackets = Inr t"
| "transpileExpression chk TrueKeyword brackets = Inr ''true''"
| "transpileExpression chk FalseKeyword brackets = Inr ''false''"
| "transpileExpression chk NullKeyword brackets = Inr ''nil''"
| "transpileExpression chk ThisKeyword brackets = Inr ''self''"
| "transpileExpression chk (PostfixUnaryExpression e op) brackets =
     transpilePostfixUnaryExpression chk e op"
| "transpileExpression chk (PrefixUnaryExpression op e) brackets =
     transpilePrefixUnaryExpression chk op e"
| "transpileExpression chk (ArrayLiteralExpression es) brackets = transpileArrayLiteral chk es"
| "transpileExpression chk (ObjectLiteralExpression ps) brackets = transpileObjectLiteral chk ps"
| "transpileExpression chk (ArrowFunction ps b) brackets = transpileArrowFunction chk ps b"
| "transpileExpression chk (NewExpression e args) brackets = transpileNewExpression chk e args"
| "transpileExpression chk (ComputedPropertyName e) brackets =
     bindE (transpileExpression chk e False) (\<lambda>s. Inr (''['' @ s @ '']''))"
| "transpileExpression chk (ParenthesizedExpression e) brackets =
     bindE (transpileExpression chk e False) (\<lambda>s. Inr (''('' @ s @ '')''))"
| "transpileExpression chk SuperKeyword brackets = Inr ''self.__base''"
| "transpileExpression chk (TypeAssertionExpression e) brackets = transpileExpression chk e False"
| "transpileExpression chk (AsExpression e) brackets = transpileExpression chk e False"
| "transpileExpression chk (OtherExpression k) brackets =
     Inl (TranspileError (''Unsupported expression kind: '' @ k))"

| "transpileBinaryExpression chk left op right brackets =
     bindE (transpileExpression chk left True) (\<lambda>lhs.
     bindE (transpileExpression chk right True) (\<lambda>rhs.
       if op = PlusToken \<and> (TF_String \<in> flags (chk left) \<or> isStringLiteral left)
       then Inr (lhs @ ''..'' @ rhs)
       else
         let result =
           (if op = PlusEqualsToken then lhs @ ''='' @ lhs @ ''+'' @ rhs
            else if op = MinusEqualsToken then lhs @ ''='' @ lhs @ ''-'' @ rhs
            else if op = AmpersandAmpersandToken then lhs @ '' and '' @ rhs
            else if op = BarBarToken then lhs @ '' or '' @ rhs
            else if op = AmpersandToken then ''bit.band('' @ lhs @ '','' @ rhs @ '')''
            else if op = BarToken then ''bit.bor('' @ lhs @ '','' @ rhs @ '')''
            else lhs @ transpileOperator op @ rhs)
         in if brackets then Inr (''('' @ result @ '')'') else Inr result))"

| "transpileTemplateExpression chk h spans =
     bindE (sequenceE (map (\<lambda>span. case span of TemplateSpan e t \<Rightarrow>
              bindE (transpileExpression chk e True) (\<lambda>ex. Inr (ex @ ''..\"'' @ t @ ''\"''))) spans))
       (\<lambda>parts. Inr (join ''..'' ((''\"'' @ h @ ''\"'') # parts)))"

| "transpileConditionalExpression chk c a b =
     bindE (transpileExpression chk c False) (\<lambda>condition.
     bindE (transpileExpression chk a False) (\<lambda>val1.
     bindE (transpileExpression chk b False) (\<lambda>val2.
       Inr (''TS_ITE('' @ condition @ '',function() return '' @ val1
            @ '' end, function() return '' @ val2 @ '' end)''))))"

| "transpilePostfixUnaryExpression chk e op =
     bindE (transpileExpression chk e True) (\<lambda>operand.
       if op = PlusPlusToken then Inr (operand @ '' = '' @ operand @ '' + 1'')
       else if op = MinusMinusToken then Inr (operand @ '' = '' @ operand @ '' - 1'')
       else Inl (TranspileError ''Unsupported unary postfix: PostfixUnaryExpression''))"

| "transpilePrefixUnaryExpression chk op e =
     bindE (transpileExpression chk e True) (\<lambda>operand.
       if op = PlusPlusToken then Inr (operand @ '' = '' @ operand @ '' + 1'')
       else if op = MinusMinusToken then Inr (operand @ '' = '' @ operand @ '' - 1'')
       else if op = ExclamationToken then Inr (''not '' @ operand)
       else if op = MinusToken then Inr (''-'' @ operand)
       else Inl (TranspileError ''Unsupported unary prefix: PrefixUnaryExpression''))"

| "transpileNewExpression chk e args =
     bindE (transpileExpression chk e False) (\<lambda>name.
     bindE (transpileArguments chk args (Some TrueKeyword)) (\<lambda>params.
       Inr (name @ ''.new('' @ params @ '')'')))"

| "transpileCallExpression chk callee args =
     (case asPropertyAccessExpression callee of
        Some (receiver, name) \<Rightarrow>
          if flags (chk receiver) = {TF_String} \<or> flags (chk receiver) = {TF_StringLiteral}
          then transpileStringCallExpression chk receiver name args
          else if flags (chk receiver) = {TF_Object} \<and> isArrayType (chk receiver)
          then transpileArrayCallExpression chk receiver name args
          else
            bindE (transpileExpression chk callee False) (\<lambda>callPath.
            bindE (transpileArguments chk args (Some receiver)) (\<lambda>params.
              Inr (callPath @ ''('' @ params @ '')'')))
      | None \<Rightarrow>
          if callee = SuperKeyword then
            bindE (transpileExpression chk callee False) (\<lambda>callPath.
            bindE (transpileArguments chk args (Some ThisKeyword)) (\<lambda>params.
              Inr (''self.__base.constructor('' @ params @ '')'')))
          else
            bindE (transpileExpression chk callee False) (\<lambda>callPath.
            bindE (transpileArguments chk args None) (\<lambda>params.
              Inr (callPath @ ''('' @ params @ '')''))))"

| "transpileStringCallExpression chk receiver name args =
     bindE (transpileArguments chk args None) (\<lambda>params.
     bindE (transpileExpression chk receiver False) (\<lambda>caller.
       if escapedText name = ''replace'' then
         Inr (''string.sub('' @ caller @ '','' @ params @ '')'')
       else if escapedText name = ''indexOf'' then
         (if length args = 1
          then Inr (''(string.find('' @ caller @ '','' @ params @ '',1,true) or 0)-1'')
          else Inr (''(string.find('' @ caller @ '','' @ params @ ''+1,true) or 0)-1''))
       else Inl (TranspileError (''Unsupported string function: '' @ escapedText name))))"

| "transpileArrayCallExpression chk receiver name args =
     bindE (transpileArguments chk args None) (\<lambda>params.
     bindE (transpileExpression chk receiver False) (\<lambda>caller.
       if escapedText name = ''push'' then Inr (''table.insert('' @ caller @ '', '' @ params @ '')'')
       else if escapedText name = ''forEach'' then Inr (''TS_forEach('' @ caller @ '', '' @ params @ '')'')
       else if escapedText name = ''map'' then Inr (''TS_map('' @ caller @ '', '' @ params @ '')'')
       else if escapedText name = ''filter'' then Inr (''TS_filter('' @ caller @ '', '' @ params @ '')'')
       else if escapedText name = ''some'' then Inr (''TS_some('' @ caller @ '', '' @ params @ '')'')
       else if escapedText name = ''every'' then Inr (''TS_every('' @ caller @ '', '' @ params @ '')'')
       else if escapedText name = ''slice'' then Inr (''TS_slice('' @ caller @ '', '' @ params @ '')'')
       else Inl (TranspileError (''Unsupported array function: '' @ escapedText name))))"

| "transpileArguments chk params context =
     bindE (case context of
              None \<Rightarrow> Inr []
            | Some c \<Rightarrow> bindE (transpileExpression chk c False) (\<lambda>s. Inr [s])) (\<lambda>first.
     bindE (sequenceE (map (\<lambda>param. transpileExpression chk param False) params)) (\<lambda>rest.
       Inr (join '','' (first @ rest))))"

| "transpilePropertyAccessExpression chk e name =
     (if flags (chk e) = {TF_String} \<or> flags (chk e) = {TF_StringLiteral}
      then transpileStringProperty chk e name
      else if flags (chk e) = {TF_Object} \<and> isArrayType (chk e)
      then transpileArrayProperty chk e name
      else if isCompileMembersOnlyEnum (chk e) then Inr (text_of name)
      else bindE (transpileExpression chk e False) (\<lambda>path. Inr (path @ ''.'' @ text_of name)))"

| "transpileStringProperty chk e name =
     (if escapedText name = ''length''
      then bindE (transpileExpression chk e False) (\<lambda>s. Inr (''#'' @ s))
      else Inl (TranspileError (''Unsupported string property: '' @ escapedText name)))"

| "transpileArrayProperty chk e name =
     (if escapedText name = ''length''
      then bindE (transpileExpression chk e False) (\<lambda>s. Inr (''#'' @ s))
      else Inl (TranspileError (''Unsupported array property: '' @ escapedText name)))"

| "transpileElementAccessExpression chk e i =
     bindE (transpileExpression chk e False) (\<lambda>element.
     bindE (transpileExpression chk i False) (\<lambda>index.
       if isArrayType (chk e) \<or> isTupleType (chk e)
       then Inr (element @ ''['' @ index @ ''+1]'')
       else if isStringType (chk e)
       then Inr (''string.sub('' @ element @ '','' @ index @ ''+1,'' @ index @ ''+1)'')
       else Inr (element @ ''['' @ index @ '']'')))"

| "transpileArrayLiteral chk es =
     bindE (sequenceE (map (\<lambda>child. transpileExpression chk child False) es)) (\<lambda>values.
       Inr (''{'' @ join '','' values @ ''}''))"

| "transpileObjectLiteral chk ps =
     bindE (sequenceE (map (\<lambda>assignment. case assignment of PropertyAssignment key val \<Rightarrow>
              (case asIdentifier key of
                 Some k \<Rightarrow> bindE (transpileExpression chk val False) (\<lambda>v. Inr (escapedText k @ ''='' @ v))
               | None \<Rightarrow>
                   bindE (transpileExpression chk key False) (\<lambda>index.
                   bindE (transpileExpression chk val False) (\<lambda>v.
                     if isComputedPropertyName key then Inr (index @ ''='' @ v)
                     else Inr (''['' @ index @ '']='' @ v))))) ps))
       (\<lambda>properties. Inr (''{'' @ join '','' properties @ ''}''))"

| "transpileArrowFunction chk ps body =
     bindE (transpileExpression chk body False) (\<lambda>b.
       Inr (''function('' @ join '','' ps @ '') return '' @ b @ '' end''))"
  by pat_completeness auto

termination
  apply (relation "measure
    (case_sum
      (case_sum
        (case_sum
          (case_sum
            (\<lambda>(chk, e, b). 4 * size e)
            (\<lambda>(chk, l, t, r, b). 4 * (size l + size r) + 3))
          (case_sum
            (\<lambda>(chk, h, spans). 4 * size_list size spans + 3)
            (\<lambda>(chk, c, a, b). 4 * (size c + size a + size b) + 3)))
        (case_sum
          (case_sum
            (\<lambda>(chk, e, t). 4 * size e + 3)
            (\<lambda>(chk, t, e). 4 * size e + 3))
          (case_sum
            (\<lambda>(chk, e, args). 4 * (size e + size_list size args) + 3)
            (case_sum
              (\<lambda>(chk, e, args). 4 * (size e + size_list size args) + 3)
              (\<lambda>(chk, e, n, args). 4 * (size e + size_list size args) + 2)))))
      (case_sum
        (case_sum
          (case_sum
            (\<lambda>(chk, e, n, args). 4 * (size e + size_list size args) + 2)
            (\<lambda>(chk, args, c). 4 * (size_list size args + (case c of None \<Rightarrow> 0 | Some x \<Rightarrow> size x)) + 1))
          (case_sum
            (\<lambda>(chk, e, n). 4 * size e + 3)
            (\<lambda>(chk, e, n). 4 * size e + 1)))
        (case_sum
          (case_sum
            (\<lambda>(chk, e, n). 4 * size e + 1)
            (\<lambda>(chk, e, i). 4 * (size e + size i) + 3))
          (case_sum
            (\<lambda>(chk, es). 4 * size_list size es + 3)
            (case_sum
              (\<lambda>(chk, ps). 4 * size_list size ps + 3)
              (\<lambda>(chk, ps, e). 4 * size e + 3))))))")
  apply (simp_all add: asPropertyAccessExpression_Some)
  subgoal by (drule size_list_member [where f = size]) simp
  subgoal by clarsimp
  subgoal by clarsimp
  subgoal by clarsimp
  subgoal by (drule size_list_member [where f = size]) simp
  subgoal by (drule size_list_member [where f = size]) simp
  subgoal by (drule size_list_member [where f = size]) simp
  subgoal by (drule size_list_member [where f = size]) simp
  subgoal by (drule size_list_member [where f = size]) simp
  done

section \<open>Statements and the emitter's state\<close>

text \<open>
  Statement nodes. The names bound by declarations are kept as the \<^verbatim>\<open>escapedText\<close> the
  emitters read. \<open>EnumDeclaration\<close> carries the type the checker gives for the node
  itself; an \<open>ImportDeclaration\<close> carries its module specifier and the
  \<^verbatim>\<open>namedBindings\<close> of its import clause (\<open>None\<close> when the clause or its bindings
  are \<^verbatim>\<open>undefined\<close>). \<open>Declared s\<close> is a node with a \<^verbatim>\<open>declare\<close> modifier among its
  children, \<open>OtherStatement k\<close> a node of a kind \<open>k\<close> that \<^verbatim>\<open>transpileNode\<close> does not
  list. \<open>ContinueKeyword\<close> is the kind \<^verbatim>\<open>transpileNode\<close> rejects by name; class
  declarations and the three-clause \<^verbatim>\<open>for\<close> are not part of the fragment.
\<close>

datatype bindingElement = BindingElement (dotDotDotToken: bool) (elementName: string)

datatype bindingName =
  IdentifierName string | ArrayBindingPattern "bindingElement list" | ObjectBindingPattern

datatype variableDeclaration = VariableDeclaration bindingName "expr option"

datatype importSpecifier = ImportSpecifier (propertyName: "string option") (specifierName: string)

datatype namedBindings = NamespaceImport string | NamedImports "importSpecifier list"

datatype enumMember = EnumMember string "expr option"

datatype stmt =
    ImportDeclaration expr "namedBindings option"
  | EnumDeclaration string tstype "enumMember list"
  | FunctionDeclaration string "string list" "stmt list"
  | VariableStatement "variableDeclaration list"
  | ExpressionStatement expr
  | ReturnStatement "expr option"
  | IfStatement expr stmt "stmt option"
  | WhileStatement expr stmt
  | ForOfStatement string expr stmt
  | ForInStatement string expr stmt
  | SwitchStatement expr "caseClause list"
  | BreakStatement
  | ContinueKeyword
  | Block "stmt list"
  | TypeAliasDeclaration
  | InterfaceDeclaration
  | EndOfFileToken
  | Declared stmt
  | OtherStatement string
and caseClause = CaseClause expr "stmt list" | DefaultClause "stmt list"

text \<open>
  The mutable fields of \<^verbatim>\<open>LuaTranspiler\<close>. The \<^verbatim>\<open>checker\<close> field is set by the
  constructor and never assigned again, so it is passed along as an argument.
\<close>

record transpiler =
  indent :: string
  genVarCounter :: nat
  transpilingSwitch :: bool

definition new_LuaTranspiler :: transpiler where
  "new_LuaTranspiler = \<lparr>indent = [], genVarCounter = 0, transpilingSwitch = False\<rparr>"

definition pushIndent :: "transpiler \<Rightarrow> transpiler" where
  "pushIndent st = st\<lparr>indent := indent st @ ''    ''\<rparr>"

definition popIndent :: "transpiler \<Rightarrow> transpiler" where
  "popIndent st = st\<lparr>indent := drop 4 (indent st)\<rparr>"

text \<open>
  \<^verbatim>\<open>xs.forEach((x, index) => { result += ... })\<close> with the emitter's state threaded
  through the calls; the first error ends the loop.
\<close>

fun forEachE ::
  "(nat \<Rightarrow> 'a \<Rightarrow> 's \<Rightarrow> error + string \<times> 's) \<Rightarrow> nat \<Rightarrow> 'a list \<Rightarrow> 's \<Rightarrow> error + string \<times> 's"
where
  "forEachE f index [] st = Inr ([], st)"
| "forEachE f index (x # xs) st =
     bindE (f index x st) (\<lambda>(r, st1).
     bindE (forEachE f (Suc index) xs st1) (\<lambda>(rs, st2). Inr (r @ rs, st2)))"

lemma forEachE_cong [fundef_cong]:
  "xs = ys \<Longrightarrow> (\<And>i x s. x \<in> set ys \<Longrightarrow> f i x s = g i x s)
   \<Longrightarrow> forEachE f index xs st = forEachE g index ys st"
proof (induction ys arbitrary: xs index st)
  case Nil
  then show ?case by simp
next
  case (Cons y ys)
  have "forEachE f (Suc index) ys s = forEachE g (Suc index) ys s" for s
    by (rule Cons.IH) (simp_all add: Cons.prems)
  with Cons.prems show ?case by simp
qed

section \<open>Statement emitters that do not recurse into statements\<close>

text \<open>
  \<^verbatim>\<open>transpileImport\<close>. The bindings of the model are a namespace import or named
  imports, so the last branch of the source (\<^verbatim>\<open>Unsupported import type.\<close>) has no
  input here; absent bindings end in the runtime's \<^verbatim>\<open>TypeError\<close>.
\<close>

definition transpileImport :: "typeChecker \<Rightarrow> expr \<Rightarrow> namedBindings option \<Rightarrow> error + string" where
  "transpileImport chk moduleSpecifier imports =
     bindE (transpileExpression chk moduleSpecifier False) (\<lambda>name.
       case imports of
         None \<Rightarrow> Inl (TypeError ''Cannot read property of undefined'')
       | Some (NamespaceImport x) \<Rightarrow> Inr (''{$imports.name.escapedText} = require('' @ name @ '')'')
       | Some (NamedImports elements) \<Rightarrow>
           if list_ex (\<lambda>element. propertyName element \<noteq> None) elements
           then Inl (TranspileError ''Renaming of individual imported objects is not allowed'')
           else Inr (''require('' @ name @ '')''))"


text \<open>
  JavaScript numbers, as far as the enum counter needs them. The counter only takes the
  values \<^verbatim>\<open>NaN\<close>, the two infinities and doubles whose value is an integer; \<open>Finite i\<close>
  stands for the double of value \<open>i\<close>. \<open>roundToDouble n\<close> is the double nearest to the
  natural number \<open>n\<close> (a significand of 53 bits, ties to the even significand), and \<open>None\<close>
  when \<open>n\<close> lies beyond the largest double, where the number is \<^verbatim>\<open>Infinity\<close>.
\<close>

datatype jsnumber = NaN | PosInfinity | NegInfinity | Finite int

fun bitlen :: "nat \<Rightarrow> nat" where
  "bitlen n = (if n = 0 then 0 else Suc (bitlen (n div 2)))"

declare bitlen.simps [simp del]

definition roundToDouble :: "nat \<Rightarrow> nat option" where
  "roundToDouble n =
     (if n < 2 ^ 53 then Some n
      else
        let e = bitlen n - 53;
            q = n div 2 ^ e;
            r = n mod 2 ^ e;
            q' = (if 2 ^ e < 2 * r \<or> (2 * r = 2 ^ e \<and> odd q) then q + 1 else q)
        in if q' * 2 ^ e < 2 ^ 1024 then Some (q' * 2 ^ e) else None)"

definition numberOfInteger :: "int \<Rightarrow> jsnumber" where
  "numberOfInteger i =
     (case roundToDouble (nat \<bar>i\<bar>) of
        None \<Rightarrow> if i < 0 then NegInfinity else PosInfinity
      | Some m \<Rightarrow> Finite (if i < 0 then - int m else int m))"

text \<open>\<^verbatim>\<open>val++\<close>: the sum with 1, rounded to a double.\<close>

definition increment :: "jsnumber \<Rightarrow> jsnumber" where
  "increment v = (case v of Finite i \<Rightarrow> numberOfInteger (i + 1) | _ \<Rightarrow> v)"

text \<open>
  \<^verbatim>\<open>parseInt(s)\<close> with no radix: it skips leading white space (the code units below 256
  that count as such), reads a sign, an optional \<^verbatim>\<open>0x\<close> prefix and the longest run of
  digits of the radix, and gives \<^verbatim>\<open>NaN\<close> when there is no digit; the integer read is
  rounded to a double.
\<close>

definition isStrWhiteSpaceChar :: "char \<Rightarrow> bool" where
  "isStrWhiteSpaceChar c = (of_char c \<in> {9, 10, 11, 12, 13, 32, 160 :: nat})"

definition digit_value :: "nat \<Rightarrow> char \<Rightarrow> nat option" where
  "digit_value radix c =
     (let n = of_char c :: nat;
          v = (if 48 \<le> n \<and> n \<le> 57 then Some (n - 48)
               else if 97 \<le> n \<and> n \<le> 122 then Some (n - 87)
               else if 65 \<le> n \<and> n \<le> 90 then Some (n - 55)
               else None)
      in case v of None \<Rightarrow> None | Some d \<Rightarrow> if d < radix then Some d else None)"

fun parseDigits :: "nat \<Rightarrow> string \<Rightarrow> nat option \<Rightarrow> nat option" where
  "parseDigits radix [] acc = acc"
| "parseDigits radix (c # cs) acc =
     (case digit_value radix c of
        None \<Rightarrow> acc
      | Some d \<Rightarrow> parseDigits radix cs (Some ((case acc of None \<Rightarrow> 0 | Some a \<Rightarrow> a) * radix + d)))"

definition parseInt :: "string \<Rightarrow> jsnumber" where
  "parseInt s =
     (let s1 = dropWhile isStrWhiteSpaceChar s;
          negative = (s1 \<noteq> [] \<and> hd s1 = CHR ''-'');
          s2 = (if s1 \<noteq> [] \<and> (hd s1 = CHR ''-'' \<or> hd s1 = CHR ''+'') then tl s1 else s1);
          hex = (take 2 s2 = ''0x'' \<or> take 2 s2 = ''0X'');
          digits = (if hex then parseDigits 16 (drop 2 s2) None else parseDigits 10 s2 None)
      in case digits of
           None \<Rightarrow> NaN
         | Some n \<Rightarrow> numberOfInteger (if negative then - int n else int n))"

text \<open>
  The text of a number (\<^verbatim>\<open>Number::toString\<close>, as a template literal applies it). For a
  double of integer value \<open>x\<close> with \<open>d\<close> decimal digits these are the fewest digits \<open>s\<close>
  (\<open>k\<close> of them) for which \<open>s * 10 ^ (d - k)\<close> still rounds to \<open>x\<close>, taking the nearer
  one (the even one at equal distance) when two such \<open>s\<close> exist; up to 21 digits they are
  written out and filled with zeros, beyond that in exponent form.
\<close>

function shortestDigits :: "nat \<Rightarrow> nat \<Rightarrow> nat \<Rightarrow> nat \<times> nat" where
  "shortestDigits x d k =
     (if d \<le> k then (x, d)
      else
        let scale = 10 ^ (d - k);
            lo = x div scale;
            okLo = (roundToDouble (lo * scale) = Some x);
            okHi = (lo + 1 < 10 ^ k \<and> roundToDouble ((lo + 1) * scale) = Some x)
        in if okLo \<and> okHi then
             (if x - lo * scale < (lo + 1) * scale - x then (lo, k)
              else if (lo + 1) * scale - x < x - lo * scale then (lo + 1, k)
              else if even lo then (lo, k) else (lo + 1, k))
           else if okLo then (lo, k)
           else if okHi then (lo + 1, k)
           else shortestDigits x d (Suc k))"
  by pat_completeness auto

termination
  by (relation "measure (\<lambda>(x, d, k). d - k)") auto

declare shortestDigits.simps [simp del]

definition integerToString :: "nat \<Rightarrow> string" where
  "integerToString x =
     (let d = length (string_of_nat x) in
      if roundToDouble (10 ^ d) = Some x then ''1e+'' @ string_of_nat d
      else
        let sk = shortestDigits x d 1;
            ds = string_of_nat (fst sk)
        in if d \<le> 21 then ds @ replicate (d - snd sk) CHR ''0''
           else if snd sk = 1 then ds @ ''e+'' @ string_of_nat (d - 1)
           else hd ds # ''.'' @ tl ds @ ''e+'' @ string_of_nat (d - 1))"

definition numberToString :: "jsnumber \<Rightarrow> string" where
  "numberToString v =
     (case v of
        NaN \<Rightarrow> ''NaN''
      | PosInfinity \<Rightarrow> ''Infinity''
      | NegInfinity \<Rightarrow> ''-Infinity''
      | Finite i \<Rightarrow> if i < 0 then ''-'' @ integerToString (nat (- i)) else integerToString (nat i))"

definition asNumericLiteral :: "expr \<Rightarrow> string option" where
  "asNumericLiteral e = (case e of NumericLiteral t \<Rightarrow> Some t | _ \<Rightarrow> None)"

text \<open>
  The body of \<^verbatim>\<open>node.members.forEach\<close> in \<^verbatim>\<open>transpileEnum\<close>, with the counter
  \<^verbatim>\<open>val\<close> as an argument: \<open>enumName\<close> is the escaped name of the enum.
\<close>

fun transpileEnumMembers ::
  "string \<Rightarrow> string \<Rightarrow> bool \<Rightarrow> enumMember list \<Rightarrow> jsnumber \<Rightarrow> error + string"
where
  "transpileEnumMembers ind enumName membersOnly [] val = Inr []"
| "transpileEnumMembers ind enumName membersOnly (EnumMember name initializer # members) val =
     bindE (case initializer of
              None \<Rightarrow> Inr val
            | Some e \<Rightarrow>
                (case asNumericLiteral e of
                   Some t \<Rightarrow> Inr (parseInt t)
                 | None \<Rightarrow> Inl (TranspileError ''Only numeric initializers allowed for enums.'')))
       (\<lambda>v.
     bindE (transpileEnumMembers ind enumName membersOnly members (increment v))
       (\<lambda>rest.
         Inr ((if membersOnly then ind @ name @ ''='' @ numberToString v @ ''\<newline>''
               else ind @ enumName @ ''.'' @ name @ ''='' @ numberToString v @ ''\<newline>'') @ rest)))"

definition transpileEnum ::
  "string \<Rightarrow> tstype \<Rightarrow> enumMember list \<Rightarrow> transpiler \<Rightarrow> error + string"
where
  "transpileEnum enumName type members st =
     (let membersOnly = isCompileMembersOnlyEnum type;
          header = (if \<not> membersOnly then indent st @ enumName @ ''={}\<newline>'' else [])
      in bindE (transpileEnumMembers (indent st) enumName membersOnly members (Finite 0))
           (\<lambda>lines. Inr (header @ lines)))"

definition transpileBreak :: "transpiler \<Rightarrow> string" where
  "transpileBreak st =
     (if transpilingSwitch st
      then indent st @ ''goto switchDone'' @ string_of_nat (genVarCounter st) @ ''\<newline>''
      else indent st @ ''break\<newline>'')"

text \<open>
  \<^verbatim>\<open>transpileReturn\<close> passes \<^verbatim>\<open>node.expression\<close> on as it is; for a bare
  \<^verbatim>\<open>return;\<close> that is \<^verbatim>\<open>undefined\<close>, and \<^verbatim>\<open>transpileExpression\<close> starts by reading
  \<^verbatim>\<open>node.kind\<close>.
\<close>

definition transpileReturn :: "typeChecker \<Rightarrow> expr option \<Rightarrow> error + string" where
  "transpileReturn chk expression =
     (case expression of
        None \<Rightarrow> Inl (TypeError ''Cannot read property of undefined'')
      | Some e \<Rightarrow> bindE (transpileExpression chk e False) (\<lambda>s. Inr (''return '' @ s)))"

fun transpileBindingElements :: "string \<Rightarrow> string \<Rightarrow> nat \<Rightarrow> bindingElement list \<Rightarrow> string" where
  "transpileBindingElements ind parentName index [] = []"
| "transpileBindingElements ind parentName index (elem # elems) =
     (if \<not> dotDotDotToken elem
      then ind @ ''local '' @ elementName elem @ '' = '' @ parentName
             @ ''['' @ string_of_nat (index + 1) @ '']\<newline>''
      else ind @ ''local '' @ elementName elem @ '' = TS_slice('' @ parentName
             @ '', '' @ string_of_nat index @ '')\<newline>'')
     @ transpileBindingElements ind parentName (Suc index) elems"

definition transpileVariableDeclaration ::
  "typeChecker \<Rightarrow> variableDeclaration \<Rightarrow> transpiler \<Rightarrow> error + string \<times> transpiler"
where
  "transpileVariableDeclaration chk node st =
     (case node of VariableDeclaration name initializer \<Rightarrow>
        (case name of
           IdentifierName identifier \<Rightarrow>
             (case initializer of
                Some e \<Rightarrow>
                  bindE (transpileExpression chk e False) (\<lambda>value.
                    Inr (''local '' @ identifier @ '' = '' @ value, st))
              | None \<Rightarrow> Inr (''local '' @ identifier @ '' = nil'', st))
         | ArrayBindingPattern elements \<Rightarrow>
             (case initializer of
                None \<Rightarrow> Inl (TypeError ''Cannot read property of undefined'')
              | Some e \<Rightarrow>
                  bindE (transpileExpression chk e False) (\<lambda>value.
                    let parentName = ''__destr'' @ string_of_nat (genVarCounter st);
                        st1 = st\<lparr>genVarCounter := genVarCounter st + 1\<rparr>
                    in Inr (''local '' @ parentName @ '' = '' @ value @ ''\<newline>''
                            @ transpileBindingElements (indent st1) parentName 0 elements, st1)))
         | ObjectBindingPattern \<Rightarrow>
             Inl (TranspileError ''Unsupported variable declaration type ObjectBindingPattern'')))"

definition transpileVariableStatement ::
  "typeChecker \<Rightarrow> variableDeclaration list \<Rightarrow> transpiler \<Rightarrow> error + string \<times> transpiler"
where
  "transpileVariableStatement chk declarations st =
     forEachE (\<lambda>_ declaration s. transpileVariableDeclaration chk declaration s) 0 declarations st"


section \<open>Statement emitters\<close>

definition asBlock :: "stmt \<Rightarrow> stmt list option" where
  "asBlock node = (case node of Block statements \<Rightarrow> Some statements | _ \<Rightarrow> None)"

lemma asBlock_Some [termination_simp]: "asBlock node = Some stmts \<longleftrightarrow> node = Block stmts"
  by (cases node) (auto simp: asBlock_def)

fun clauseStatements :: "caseClause \<Rightarrow> stmt list" where
  "clauseStatements (CaseClause e statements) = statements"
| "clauseStatements (DefaultClause statements) = statements"

lemma size_clauseStatements: "size_list size (clauseStatements clause) < size clause"
  by (cases clause) simp_all

text \<open>
  \<^verbatim>\<open>transpileBlock\<close> gets the statements of the block (or, for a source file, the
  children of the node), every other emitter the parts of its node.
\<close>

function
  transpileBlock :: "typeChecker \<Rightarrow> stmt list \<Rightarrow> transpiler \<Rightarrow> error + string \<times> transpiler" and
  transpileNode :: "typeChecker \<Rightarrow> stmt \<Rightarrow> transpiler \<Rightarrow> error + string \<times> transpiler" and
  transpileIf ::
    "typeChecker \<Rightarrow> expr \<Rightarrow> stmt \<Rightarrow> stmt option \<Rightarrow> transpiler \<Rightarrow> error + string \<times> transpiler" and
  transpileWhile ::
    "typeChecker \<Rightarrow> expr \<Rightarrow> stmt \<Rightarrow> transpiler \<Rightarrow> error + string \<times> transpiler" and
  transpileForOf ::
    "typeChecker \<Rightarrow> string \<Rightarrow> expr \<Rightarrow> stmt \<Rightarrow> transpiler \<Rightarrow> error + string \<times> transpiler" and
  transpileForIn ::
    "typeChecker \<Rightarrow> string \<Rightarrow> expr \<Rightarrow> stmt \<Rightarrow> transpiler \<Rightarrow> error + string \<times> transpiler" and
  transpileStatement :: "typeChecker \<Rightarrow> stmt \<Rightarrow> transpiler \<Rightarrow> error + string \<times> transpiler" and
  transpileSwitch ::
    "typeChecker \<Rightarrow> expr \<Rightarrow> caseClause list \<Rightarrow> transpiler \<Rightarrow> error + string \<times> transpiler" and
  transpileFunctionDeclaration ::
    "typeChecker \<Rightarrow> string \<Rightarrow> string list \<Rightarrow> stmt list \<Rightarrow> transpiler
      \<Rightarrow> error + string \<times> transpiler"
where
  "transpileBlock chk statements st =
     forEachE (\<lambda>_ statement s. transpileNode chk statement s) 0 statements st"

| "transpileNode chk (Declared node) st = Inr ([], st)"
| "transpileNode chk (ImportDeclaration moduleSpecifier imports) st =
     bindE (transpileImport chk moduleSpecifier imports) (\<lambda>r. Inr (r, st))"
| "transpileNode chk (EnumDeclaration name type members) st =
     bindE (transpileEnum name type members st) (\<lambda>r. Inr (r, st))"
| "transpileNode chk (FunctionDeclaration name parameters body) st =
     transpileFunctionDeclaration chk name parameters body st"
| "transpileNode chk (VariableStatement declarations) st =
     bindE (transpileVariableStatement chk declarations st) (\<lambda>(r, st1).
       Inr (indent st @ r @ ''\<newline>'', st1))"
| "transpileNode chk (ExpressionStatement e) st =
     bindE (transpileExpression chk e False) (\<lambda>r. Inr (indent st @ r @ ''\<newline>'', st))"
| "transpileNode chk (ReturnStatement e) st =
     bindE (transpileReturn chk e) (\<lambda>r. Inr (indent st @ r @ ''\<newline>'', st))"
| "transpileNode chk (IfStatement c thenStatement elseStatement) st =
     transpileIf chk c thenStatement elseStatement st"
| "transpileNode chk (WhileStatement c body) st = transpileWhile chk c body st"
| "transpileNode chk (ForOfStatement v e body) st = transpileForOf chk v e body st"
| "transpileNode chk (ForInStatement v e body) st = transpileForIn chk v e body st"
| "transpileNode chk (SwitchStatement e clauses) st = transpileSwitch chk e clauses st"
| "transpileNode chk BreakStatement st = Inr (transpileBreak st, st)"
| "transpileNode chk ContinueKeyword st =
     Inl (TranspileError ''Continue is not supported in Lua'')"
| "transpileNode chk TypeAliasDeclaration st = Inr ([], st)"
| "transpileNode chk InterfaceDeclaration st = Inr ([], st)"
| "transpileNode chk EndOfFileToken st = Inr ([], st)"
| "transpileNode chk (Block statements) st =
     Inl (TranspileError ''Unsupported expression kind: Block'')"
| "transpileNode chk (OtherStatement k) st =
     Inl (TranspileError (''Unsupported expression kind: '' @ k))"

| "transpileIf chk c thenStatement elseStatement st =
     bindE (transpileExpression chk c False) (\<lambda>condition.
     bindE (transpileStatement chk thenStatement (pushIndent st)) (\<lambda>(r1, st1).
     bindE (case elseStatement of
              None \<Rightarrow> Inr ([], popIndent st1)
            | Some e \<Rightarrow>
                bindE (transpileStatement chk e (pushIndent (popIndent st1))) (\<lambda>(r2, st2).
                  Inr (indent (popIndent st1) @ ''else\<newline>'' @ r2, popIndent st2)))
       (\<lambda>(r3, st3).
         Inr (indent st @ ''if '' @ condition @ '' then\<newline>'' @ r1 @ r3
              @ indent st3 @ ''end\<newline>'', st3))))"

| "transpileWhile chk c body st =
     bindE (transpileExpression chk c False) (\<lambda>condition.
     bindE (transpileStatement chk body (pushIndent st)) (\<lambda>(r, st1).
       Inr (indent st @ ''while '' @ condition @ '' do\<newline>'' @ r
            @ indent (popIndent st1) @ ''end\<newline>'', popIndent st1)))"

| "transpileForOf chk v e body st =
     bindE (transpileExpression chk e False) (\<lambda>expression.
     let pairs = (if isArrayType (chk e) then ''ipairs'' else ''pairs'') in
     bindE (transpileStatement chk body (pushIndent st)) (\<lambda>(r, st1).
       Inr (indent st @ ''for _, '' @ v @ '' in '' @ pairs @ ''('' @ expression @ '') do\<newline>'' @ r
            @ indent (popIndent st1) @ ''end\<newline>'', popIndent st1)))"

| "transpileForIn chk v e body st =
     bindE (transpileExpression chk e False) (\<lambda>expression.
     let pairs = (if isArrayType (chk e) then ''ipairs'' else ''pairs'') in
     bindE (transpileStatement chk body (pushIndent st)) (\<lambda>(r, st1).
       Inr (indent st @ ''for '' @ v @ '', _ in '' @ pairs @ ''('' @ expression @ '') do\<newline>'' @ r
            @ indent (popIndent st1) @ ''end\<newline>'', popIndent st1)))"

| "transpileStatement chk node st =
     (case asBlock node of
        Some statements \<Rightarrow> transpileBlock chk statements st
      | None \<Rightarrow> transpileNode chk node st)"

| "transpileSwitch chk e clauses st =
     bindE (transpileExpression chk e True) (\<lambda>expression.
     bindE (forEachE (\<lambda>index clause s.
              bindE (case clause of
                       CaseClause ce _ \<Rightarrow>
                         bindE (transpileExpression chk ce True) (\<lambda>condition.
                           Inr (indent s @ (if index = 0 then ''if'' else ''elseif'') @ '' ''
                                @ expression @ ''=='' @ condition @ '' then\<newline>''))
                     | DefaultClause _ \<Rightarrow> Inr (indent s @ ''else\<newline>'')) (\<lambda>header.
              let s1 = pushIndent s;
                  label = indent s1 @ ''::switchCase'' @ string_of_nat (genVarCounter s1 + index)
                          @ ''::\<newline>''
              in
              bindE (forEachE (\<lambda>_ statement s'. transpileNode chk statement s') 0
                       (clauseStatements clause) (s1\<lparr>transpilingSwitch := True\<rparr>)) (\<lambda>(body, s2).
              let s3 = s2\<lparr>transpilingSwitch := False\<rparr>;
                  fallthrough =
                    (if Suc index < length clauses
                     then indent s3 @ ''goto switchCase''
                          @ string_of_nat (genVarCounter s3 + index + 1) @ ''\<newline>''
                     else [])
              in Inr (header @ label @ body @ fallthrough, popIndent s3))))
            0 clauses st) (\<lambda>(cases, st1).
       Inr (indent st @ ''-------Switch statement start-------\<newline>'' @ cases
            @ indent st1 @ ''end\<newline>''
            @ indent st1 @ ''::switchDone'' @ string_of_nat (genVarCounter st1) @ ''::\<newline>''
            @ indent st1 @ ''--------Switch statement end--------\<newline>'',
            st1\<lparr>genVarCounter := genVarCounter st1 + length clauses\<rparr>)))"

| "transpileFunctionDeclaration chk name parameters body st =
     bindE (transpileBlock chk body (pushIndent st)) (\<lambda>(r, st1).
       Inr (indent st @ ''function '' @ name @ ''('' @ join '','' parameters @ '')\<newline>'' @ r
            @ indent (popIndent st1) @ ''end\<newline>'', popIndent st1))"
  by pat_completeness auto

termination
  apply (relation "measure
    (case_sum
      (case_sum
        (case_sum
          (\<lambda>(chk, stmts, st). 3 * size_list size stmts + 1)
          (\<lambda>(chk, node, st). 3 * size node))
        (case_sum
          (\<lambda>(chk, c, t, e, st). 3 * (size t + (case e of None \<Rightarrow> 0 | Some x \<Rightarrow> size x)) + 2)
          (\<lambda>(chk, c, body, st). 3 * size body + 2)))
      (case_sum
        (case_sum
          (\<lambda>(chk, v, e, body, st). 3 * size body + 2)
          (\<lambda>(chk, v, e, body, st). 3 * size body + 2))
        (case_sum
          (\<lambda>(chk, node, st). 3 * size node + 1)
          (case_sum
            (\<lambda>(chk, e, clauses, st). 3 * size_list size clauses + 2)
            (\<lambda>(chk, n, ps, body, st). 3 * size_list size body + 2)))))")
  apply (simp_all add: asBlock_Some)
  subgoal by (drule size_list_member [where f = size]) simp
  subgoal for elseStatement by (cases elseStatement) simp_all
  subgoal for chk e clauses x i clause s xb xc xd statement
    using size_list_member [of statement "clauseStatements clause" size]
      size_clauseStatements [of clause] size_list_member [of clause clauses size]
    by simp
  done

text \<open>The entry point: a fresh transpiler, and the text emitted for the file's statements.\<close>

definition transpileSourceFile :: "typeChecker \<Rightarrow> stmt list \<Rightarrow> error + string" where
  "transpileSourceFile chk statements =
     bindE (transpileBlock chk statements new_LuaTranspiler) (\<lambda>(r, st). Inr r)"

section \<open>Sample types and inputs\<close>

text \<open>Types as the checker answers them for a number, a string, an array and an enum
  decorated as compile-members-only, and an identifier whose escaped text is its text.\<close>

definition numberType :: tstype where
  "numberType = \<lparr>flags = {TF_Number}, isArrayType = False, isTupleType = False,
     isStringType = False, isCompileMembersOnlyEnum = False\<rparr>"

definition stringType :: tstype where
  "stringType = \<lparr>flags = {TF_String}, isArrayType = False, isTupleType = False,
     isStringType = True, isCompileMembersOnlyEnum = False\<rparr>"



definition membersOnlyEnumType :: tstype where
  "membersOnlyEnumType = \<lparr>flags = {TF_Enum}, isArrayType = False, isTupleType = False,
     isStringType = False, isCompileMembersOnlyEnum = True\<rparr>"

definition createIdentifier :: "string \<Rightarrow> expr" where
  "createIdentifier s = Identifier (Ident s s)"

text \<open>\<^verbatim>\<open>let x = 1 + 2;\<close>\<close>

definition let_x_1_plus_2 :: stmt where
  "let_x_1_plus_2 =
     VariableStatement [VariableDeclaration (IdentifierName ''x'')
       (Some (BinaryExpression (NumericLiteral ''1'') PlusToken (NumericLiteral ''2'')))]"

text \<open>\<^verbatim>\<open>let [a, b, ...rest] = xs;\<close>\<close>

definition destructure_xs :: variableDeclaration where
  "destructure_xs =
     VariableDeclaration
       (ArrayBindingPattern
          [BindingElement False ''a'', BindingElement False ''b'', BindingElement True ''rest''])
       (Some (createIdentifier ''xs''))"

text \<open>\<^verbatim>\<open>switch (k) { case 1: switch (j) { case 2: a(); } break; }\<close>\<close>

definition nested_switch :: stmt where
  "nested_switch =
     SwitchStatement (createIdentifier ''k'')
       [CaseClause (NumericLiteral ''1'')
          [SwitchStatement (createIdentifier ''j'')
             [CaseClause (NumericLiteral ''2'')
                [ExpressionStatement (CallExpression (createIdentifier ''a'') [])]],
           BreakStatement]]"

text \<open>The number of places at which \<open>pat\<close> occurs in \<open>s\<close>.\<close>

fun occurrences :: "string \<Rightarrow> string \<Rightarrow> nat" where
  "occurrences pat [] = (if pat = [] then 1 else 0)"
| "occurrences pat (c # cs) = (if take (length pat) (c # cs) = pat then 1 else 0) + occurrences pat cs"

text \<open>\<^verbatim>\<open>switch (k) { case 1: break; case 2: let [a] = xs; }\<close>\<close>

definition switch_break_then_destructure :: stmt where
  "switch_break_then_destructure =
     SwitchStatement (createIdentifier ''k'')
       [CaseClause (NumericLiteral ''1'') [BreakStatement],
        CaseClause (NumericLiteral ''2'')
          [VariableStatement
             [VariableDeclaration (ArrayBindingPattern [BindingElement False ''a''])
                (Some (createIdentifier ''xs''))]]]"

text \<open>A checker that gives \<open>x\<close> the type \<open>t\<close> and every other expression the type of a
  number.\<close>

definition checkerWith :: "expr \<Rightarrow> tstype \<Rightarrow> typeChecker" where
  "checkerWith x t = (\<lambda>e. if e = x then t else numberType)"

text \<open>Whether a node is a binary expression, and whether an enum member has an initializer
  that is not a numeric literal.\<close>

definition isBinaryExpression :: "expr \<Rightarrow> bool" where
  "isBinaryExpression e = (case e of BinaryExpression _ _ _ \<Rightarrow> True | _ \<Rightarrow> False)"

fun hasNonNumericInitializer :: "enumMember \<Rightarrow> bool" where
  "hasNonNumericInitializer (EnumMember name None) = False"
| "hasNonNumericInitializer (EnumMember name (Some e)) = (asNumericLiteral e = None)"

text \<open>\<^verbatim>\<open>enum E { A = 1.5, B }\<close>\<close>

definition fractional_enum :: stmt where
  "fractional_enum =
     EnumDeclaration ''E'' numberType
       [EnumMember ''A'' (Some (NumericLiteral ''1.5'')), EnumMember ''B'' None]"

section \<open>Evaluation lemmas\<close>

lemma string_of_nat_digit: "n < 10 \<Longrightarrow> string_of_nat n = [digit_char n]"
  by (simp add: string_of_nat.simps)

lemmas eval_simps =
  transpileSourceFile_def new_LuaTranspiler_def transpileVariableStatement_def
  transpileVariableDeclaration_def transpileImport_def transpileReturn_def transpileBreak_def
  transpileEnum_def bindE_def createIdentifier_def string_of_nat_digit digit_char_def pushIndent_def
  popIndent_def isStringLiteral_def asPropertyAccessExpression_def asIdentifier_def
  isComputedPropertyName_def asBlock_def asNumericLiteral_def

section \<open>Imports\<close>

text \<open>
  C3. A namespace import \<^verbatim>\<open>import * as X from "m"\<close> should give \<^verbatim>\<open>X = require("m")\<close>.
  The emitted left-hand side is instead the fixed text \<^verbatim>\<open>{$imports.name.escapedText}\<close>,
  whatever the binding \<open>X\<close> is: the template of the source has \<^verbatim>\<open>{$\<close> where
  \<^verbatim>\<open>${\<close> would interpolate the name.
\<close>

theorem namespace_import_emits_placeholder:
  "transpileNode chk (ImportDeclaration (StringLiteral m) (Some (NamespaceImport X))) st
   = Inr (''{$imports.name.escapedText} = require(\"'' @ m @ ''\")'', st)"
  by (simp add: eval_simps)

lemma renamed_import_fails:
  "list_ex (\<lambda>element. propertyName element \<noteq> None) elements \<Longrightarrow>
   transpileNode chk (ImportDeclaration (StringLiteral m) (Some (NamedImports elements))) st
   = Inl (TranspileError ''Renaming of individual imported objects is not allowed'')"
  by (simp add: eval_simps)

section \<open>Return without an expression\<close>

text \<open>
  C7. A \<^verbatim>\<open>return;\<close> should be lowered to a Lua \<^verbatim>\<open>return\<close> with nothing after it. The
  emitter instead ends with a \<^verbatim>\<open>TypeError\<close> of the runtime, which is not a
  \<^verbatim>\<open>TranspileError\<close>, and emits nothing.
\<close>

theorem bare_return_raises_TypeError:
  "transpileNode chk (ReturnStatement None) st = Inl (TypeError ''Cannot read property of undefined'')"
  by (simp add: eval_simps)

section \<open>Array destructuring\<close>

text \<open>
  C9, as the specification states it: with the counter at 0, the statement
  \<^verbatim>\<open>let [a, b, ...rest] = xs;\<close> gives exactly the four lines below. The emitter's output
  for the statement is not this text.
\<close>

theorem destructuring_statement_differs:
  "transpileSourceFile (\<lambda>_. numberType) [VariableStatement [destructure_xs]]
   \<noteq> Inr ''local __destr0 = xs\<newline>local a = __destr0[1]\<newline>local b = __destr0[2]\<newline>local rest = TS_slice(__destr0, 2)\<newline>''"
  by (simp add: eval_simps destructure_xs_def)

text \<open>
  C9, amended: the declaration emitter gives exactly the four lines, each ended by a
  newline, and moves the counter from 0 to 1; the statement emitter then appends the
  newline that ends every variable statement, so the output of the statement is the four
  lines followed by an empty line.
\<close>

theorem destructuring_output:
  "transpileVariableDeclaration chk destructure_xs new_LuaTranspiler
   = Inr (''local __destr0 = xs\<newline>local a = __destr0[1]\<newline>local b = __destr0[2]\<newline>local rest = TS_slice(__destr0, 2)\<newline>'',
          new_LuaTranspiler\<lparr>genVarCounter := 1\<rparr>)
   \<and> transpileSourceFile chk [VariableStatement [destructure_xs]]
   = Inr ''local __destr0 = xs\<newline>local a = __destr0[1]\<newline>local b = __destr0[2]\<newline>local rest = TS_slice(__destr0, 2)\<newline>\<newline>''"
  by (simp add: eval_simps destructure_xs_def)

section \<open>Switch and break\<close>

lemma nested_switch_output:
  "transpileSourceFile chk [nested_switch] = Inr
     (''-------Switch statement start-------\<newline>''
      @ ''if k==1 then\<newline>''
      @ ''    ::switchCase0::\<newline>''
      @ ''    -------Switch statement start-------\<newline>''
      @ ''    if j==2 then\<newline>''
      @ ''        ::switchCase0::\<newline>''
      @ ''        a()\<newline>''
      @ ''    end\<newline>''
      @ ''    ::switchDone0::\<newline>''
      @ ''    --------Switch statement end--------\<newline>''
      @ ''    break\<newline>''
      @ ''end\<newline>''
      @ ''::switchDone1::\<newline>''
      @ ''--------Switch statement end--------\<newline>'')"
  by (simp add: eval_simps nested_switch_def)

lemma switch_break_then_destructure_output:
  "transpileSourceFile chk [switch_break_then_destructure] = Inr
     (''-------Switch statement start-------\<newline>''
      @ ''if k==1 then\<newline>''
      @ ''    ::switchCase0::\<newline>''
      @ ''    goto switchDone0\<newline>''
      @ ''    goto switchCase1\<newline>''
      @ ''elseif k==2 then\<newline>''
      @ ''    ::switchCase1::\<newline>''
      @ ''    local __destr0 = xs\<newline>''
      @ ''    local a = __destr0[1]\<newline>''
      @ ''\<newline>''
      @ ''end\<newline>''
      @ ''::switchDone1::\<newline>''
      @ ''--------Switch statement end--------\<newline>'')"
  by (simp add: eval_simps switch_break_then_destructure_def)

text \<open>
  C1. A \<^verbatim>\<open>break\<close> inside a case clause should become a \<^verbatim>\<open>goto\<close> to the terminator
  label of the switch that contains it. In
  \<^verbatim>\<open>switch (k) { case 1: switch (j) { case 2: a(); } break; }\<close> the outer switch ends with
  the label \<^verbatim>\<open>::switchDone1::\<close>, but its \<^verbatim>\<open>break\<close>, which follows the inner switch, is
  emitted as a plain \<^verbatim>\<open>break\<close> and the output holds no \<^verbatim>\<open>goto switchDone\<close> at all. In
  \<^verbatim>\<open>switch (k) { case 1: break; case 2: let [a] = xs; }\<close> the \<^verbatim>\<open>break\<close> becomes
  \<^verbatim>\<open>goto switchDone0\<close> while the only terminator label is \<^verbatim>\<open>::switchDone1::\<close>.
\<close>

theorem break_misses_terminator_label:
  "map_sum id (\<lambda>out. (occurrences ''::switchDone1::'' out, occurrences ''goto switchDone'' out,
       occurrences ''    break'' out)) (transpileSourceFile chk [nested_switch]) = Inr (1, 0, 1)
   \<and> map_sum id (\<lambda>out. (occurrences ''goto switchDone0'' out, occurrences ''::switchDone0::'' out,
       occurrences ''::switchDone1::'' out))
         (transpileSourceFile chk [switch_break_then_destructure]) = Inr (1, 0, 1)"
  by (simp add: nested_switch_output switch_break_then_destructure_output)

text \<open>
  C2. Every \<^verbatim>\<open>::switchCase<k>::\<close> and \<^verbatim>\<open>::switchDone<k>::\<close> label should occur once in
  the output. For \<^verbatim>\<open>switch (k) { case 1: switch (j) { case 2: a(); } break; }\<close> the label
  \<^verbatim>\<open>::switchCase0::\<close> is emitted twice, once by each switch.
\<close>

theorem nested_switch_repeats_label:
  "map_sum id (occurrences ''::switchCase0::'') (transpileSourceFile chk [nested_switch]) = Inr 2"
  by (simp add: nested_switch_output)

section \<open>String concatenation\<close>

text \<open>
  C4, as the specification states it: a binary \<^verbatim>\<open>+\<close> is emitted as \<^verbatim>\<open>..\<close> as soon as
  one of the two operands has the static type string. In \<^verbatim>\<open>n + s\<close>, with \<open>n\<close> a number
  and \<open>s\<close> a string, the right operand is a string and the emitted operator is \<^verbatim>\<open>+\<close>.
\<close>

theorem plus_with_string_on_the_right:
  "TF_String \<in> flags (checkerWith (createIdentifier ''s'') stringType (createIdentifier ''s''))
   \<and> transpileExpression (checkerWith (createIdentifier ''s'') stringType)
         (BinaryExpression (createIdentifier ''n'') PlusToken (createIdentifier ''s'')) False = Inr ''n+s''"
  by (simp add: eval_simps checkerWith_def stringType_def numberType_def)

text \<open>
  C4, amended: for a binary \<^verbatim>\<open>+\<close> whose operands are emitted as \<open>lhs\<close> and \<open>rhs\<close>,
  the emitted operator is \<^verbatim>\<open>..\<close> if and only if the type of the left operand has the
  string flag or the left operand is a string literal; otherwise it is \<^verbatim>\<open>+\<close> (in
  parentheses when the caller asks for brackets). The right operand plays no part.
\<close>

theorem plus_operator_follows_left_operand:
  assumes "transpileExpression chk left True = Inr lhs"
    and "transpileExpression chk right True = Inr rhs"
  shows "transpileExpression chk (BinaryExpression left PlusToken right) brackets =
     Inr (if TF_String \<in> flags (chk left) \<or> isStringLiteral left then lhs @ ''..'' @ rhs
          else if brackets then ''('' @ lhs @ ''+'' @ rhs @ '')''
          else lhs @ ''+'' @ rhs)"
  using assms by (simp add: bindE_def)

theorem plus_operator_follows_left_operand_witness:
  "transpileExpression (checkerWith (createIdentifier ''s'') stringType)
     (BinaryExpression (createIdentifier ''s'') PlusToken (createIdentifier ''n'')) False = Inr ''s..n''
   \<and> transpileExpression (checkerWith (createIdentifier ''s'') stringType)
     (BinaryExpression (StringLiteral ''a'') PlusToken (createIdentifier ''n'')) True = Inr ''\"a\"..n''
   \<and> transpileExpression (checkerWith (createIdentifier ''s'') stringType)
     (BinaryExpression (createIdentifier ''n'') PlusToken (createIdentifier ''s'')) True = Inr ''(n+s)''"
  using plus_operator_follows_left_operand
      [of "checkerWith (createIdentifier ''s'') stringType" "createIdentifier ''s''" "''s''" "createIdentifier ''n''" "''n''" False]
    plus_operator_follows_left_operand
      [of "checkerWith (createIdentifier ''s'') stringType" "StringLiteral ''a''" "''\"a\"''" "createIdentifier ''n''" "''n''" True]
    plus_operator_follows_left_operand
      [of "checkerWith (createIdentifier ''s'') stringType" "createIdentifier ''n''" "''n''" "createIdentifier ''s''" "''s''" True]
  by (simp add: checkerWith_def stringType_def numberType_def createIdentifier_def isStringLiteral_def)

section \<open>Element access\<close>



section \<open>Method calls\<close>




section \<open>Binary expressions in a declaration\<close>

text \<open>
  C6, as the specification states it: \<^verbatim>\<open>let x = 1 + 2;\<close> gives \<^verbatim>\<open>local x = (1)+(2)\<close>
  and a newline. The emitter does not produce this text.
\<close>

theorem let_sum_not_parenthesised:
  "transpileSourceFile (\<lambda>_. numberType) [let_x_1_plus_2] \<noteq> Inr ''local x = (1)+(2)\<newline>''"
  by (simp add: eval_simps let_x_1_plus_2_def numberType_def)

lemma brackets_only_matter_for_binary:
  "\<not> isBinaryExpression e \<Longrightarrow> transpileExpression chk e True = transpileExpression chk e False"
  by (cases e) (simp_all add: isBinaryExpression_def)

lemma brackets_wrap_binary:
  assumes "\<not> (op = PlusToken \<and> (TF_String \<in> flags (chk a) \<or> isStringLiteral a))"
    and "transpileExpression chk (BinaryExpression a op b) False = Inr s"
  shows "transpileExpression chk (BinaryExpression a op b) True = Inr (''('' @ s @ '')'')"
proof (cases "transpileExpression chk a True")
  case (Inl err)
  with assms(2) show ?thesis by (simp add: bindE_def)
next
  case lhs: (Inr l)
  show ?thesis
  proof (cases "transpileExpression chk b True")
    case (Inl err)
    with assms(2) lhs show ?thesis by (simp add: bindE_def)
  next
    case (Inr r)
    with assms lhs show ?thesis
      by (auto simp add: bindE_def Let_def split: if_splits)
  qed
qed

text \<open>
  C6, amended: \<^verbatim>\<open>let x = L + R;\<close> with a left operand that has neither the string flag
  nor the form of a string literal gives \<^verbatim>\<open>local x = \<close>, the text of \<open>L\<close>, \<^verbatim>\<open>+\<close>, the
  text of \<open>R\<close> and a newline, where both operands are emitted under the brackets request;
  for \<^verbatim>\<open>let x = 1 + 2;\<close> this is exactly \<^verbatim>\<open>local x = 1+2\<close> and a newline. The request
  leaves every operand that is not a binary expression as it is emitted without the
  request, and puts parentheses around an operand that is a binary expression (other than
  a string concatenation).
\<close>

theorem let_sum_output:
  "(TF_String \<notin> flags (chk left) \<and> \<not> isStringLiteral left
      \<and> transpileExpression chk left True = Inr lhs
      \<and> transpileExpression chk right True = Inr rhs
    \<longrightarrow> transpileSourceFile chk
          [VariableStatement [VariableDeclaration (IdentifierName x)
             (Some (BinaryExpression left PlusToken right))]]
        = Inr (''local '' @ x @ '' = '' @ lhs @ ''+'' @ rhs @ ''\<newline>''))
   \<and> (\<not> isBinaryExpression e
    \<longrightarrow> transpileExpression chk e True = transpileExpression chk e False)
   \<and> (\<not> (op = PlusToken \<and> (TF_String \<in> flags (chk a) \<or> isStringLiteral a))
      \<and> transpileExpression chk (BinaryExpression a op b) False = Inr s
    \<longrightarrow> transpileExpression chk (BinaryExpression a op b) True = Inr (''('' @ s @ '')''))"
proof (intro conjI impI)
  assume "TF_String \<notin> flags (chk left) \<and> \<not> isStringLiteral left
      \<and> transpileExpression chk left True = Inr lhs
      \<and> transpileExpression chk right True = Inr rhs"
  then show "transpileSourceFile chk
          [VariableStatement [VariableDeclaration (IdentifierName x)
             (Some (BinaryExpression left PlusToken right))]]
        = Inr (''local '' @ x @ '' = '' @ lhs @ ''+'' @ rhs @ ''\<newline>'')"
    by (simp add: transpileSourceFile_def new_LuaTranspiler_def transpileVariableStatement_def
        transpileVariableDeclaration_def bindE_def)
next
  assume "\<not> isBinaryExpression e"
  then show "transpileExpression chk e True = transpileExpression chk e False"
    by (rule brackets_only_matter_for_binary)
next
  assume "\<not> (op = PlusToken \<and> (TF_String \<in> flags (chk a) \<or> isStringLiteral a))
      \<and> transpileExpression chk (BinaryExpression a op b) False = Inr s"
  then show "transpileExpression chk (BinaryExpression a op b) True = Inr (''('' @ s @ '')'')"
    using brackets_wrap_binary [of op chk a b s] by blast
qed

theorem let_sum_output_witness:
  "transpileSourceFile (\<lambda>_. numberType) [let_x_1_plus_2] = Inr ''local x = 1+2\<newline>''
   \<and> transpileSourceFile (\<lambda>_. numberType)
        [VariableStatement [VariableDeclaration (IdentifierName ''x'')
           (Some (BinaryExpression
              (BinaryExpression (NumericLiteral ''1'') AsteriskToken (NumericLiteral ''2''))
              PlusToken (createIdentifier ''y'')))]]
      = Inr ''local x = (1*2)+y\<newline>''
   \<and> transpileExpression (\<lambda>_. numberType) (createIdentifier ''y'') True = Inr ''y''
   \<and> transpileExpression (\<lambda>_. numberType)
        (BinaryExpression (NumericLiteral ''1'') AsteriskToken (NumericLiteral ''2'')) True
      = Inr ''(1*2)''"
  using let_sum_output
      [of "\<lambda>_. numberType" "NumericLiteral ''1''" "''1''" "NumericLiteral ''2''" "''2''" "''x''"
          "createIdentifier ''y''" AsteriskToken "NumericLiteral ''1''" "NumericLiteral ''2''" "''1*2''"]
    let_sum_output
      [of "\<lambda>_. numberType"
          "BinaryExpression (NumericLiteral ''1'') AsteriskToken (NumericLiteral ''2'')" "''(1*2)''"
          "createIdentifier ''y''" "''y''" "''x''"
          "createIdentifier ''y''" AsteriskToken "NumericLiteral ''1''" "NumericLiteral ''2''" "''1*2''"]
  by (simp add: numberType_def let_x_1_plus_2_def createIdentifier_def isStringLiteral_def
      isBinaryExpression_def bindE_def)

section \<open>Enums\<close>

lemmas number_simps =
  parseInt_def isStrWhiteSpaceChar_def digit_value_def numberOfInteger_def roundToDouble_def
  increment_def numberToString_def integerToString_def shortestDigits.simps

text \<open>
  C8. The value emitted for a member with a numeric literal should be that literal, and
  counting should go on from it. For \<^verbatim>\<open>enum E { A = 1.5, B }\<close> the emitter writes
  \<^verbatim>\<open>E.A=1\<close> and goes on with \<^verbatim>\<open>E.B=2\<close>: the value is read with \<^verbatim>\<open>parseInt\<close>, which
  stops at the point.
\<close>

theorem fractional_enum_initializer_truncated:
  "transpileSourceFile chk [fractional_enum] = Inr ''E={}\<newline>E.A=1\<newline>E.B=2\<newline>''"
  by (simp add: eval_simps fractional_enum_def numberType_def number_simps)

lemma enum_members_non_numeric_initializer:
  "list_ex hasNonNumericInitializer members \<Longrightarrow>
   transpileEnumMembers ind enumName membersOnly members val
   = Inl (TranspileError ''Only numeric initializers allowed for enums.'')"
proof (induction members arbitrary: val)
  case Nil
  then show ?case by simp
next
  case (Cons member members)
  obtain name initializer where member: "member = EnumMember name initializer"
    by (cases member)
  show ?case
  proof (cases "hasNonNumericInitializer member")
    case True
    then show ?thesis
      by (cases initializer) (simp_all add: member bindE_def)
  next
    case False
    with Cons.prems have rest: "list_ex hasNonNumericInitializer members" by simp
    show ?thesis
      using False Cons.IH [OF rest]
      by (cases initializer) (auto simp add: member bindE_def split: option.splits)
  qed
qed

lemma enum_non_numeric_initializer_fails:
  "list_ex hasNonNumericInitializer members \<Longrightarrow>
   transpileNode chk (EnumDeclaration enumName type members) st
   = Inl (TranspileError ''Only numeric initializers allowed for enums.'')"
  by (simp add: transpileEnum_def enum_members_non_numeric_initializer bindE_def)

lemma enum_examples:
  "transpileSourceFile chk
     [EnumDeclaration ''E'' membersOnlyEnumType
        [EnumMember ''A'' None, EnumMember ''B'' (Some (NumericLiteral ''5'')), EnumMember ''C'' None]]
   = Inr ''A=0\<newline>B=5\<newline>C=6\<newline>''"
  "transpileSourceFile chk
     [EnumDeclaration ''E'' numberType
        [EnumMember ''A'' None, EnumMember ''B'' (Some (NumericLiteral ''5'')), EnumMember ''C'' None]]
   = Inr ''E={}\<newline>E.A=0\<newline>E.B=5\<newline>E.C=6\<newline>''"
  by (simp_all add: eval_simps membersOnlyEnumType_def numberType_def number_simps)

lemma increment_at_two_to_53:
  "increment (Finite 9007199254740991) = Finite 9007199254740992"
  "increment (Finite 9007199254740992) = Finite 9007199254740992"
  by (simp_all add: increment_def numberOfInteger_def roundToDouble_def bitlen.simps)

end
